theory Spec2Isabelle
  imports Main
begin

section \<open>Python values, exceptions and dictionaries\<close>

text \<open>
  The program is a Flask handler (\<^verbatim>\<open>src/app.py\<close>) that reads a CSV table and registers one
  host per row through the Zabbix JSON-RPC client. Python strings are modelled as
  \<^typ>\<open>string\<close>; a character outside ASCII is written as its UTF-8 bytes.

  Every exception of the model is an instance of Python's \<^verbatim>\<open>Exception\<close>: \<open>Raised m\<close> is an
  exception raised inside a library (the API client, the HTTP transport, pandas, the file
  system, the builtin \<^verbatim>\<open>int\<close>) whose \<^verbatim>\<open>str(e)\<close> is \<open>m\<close>; \<open>KeyError\<close> and \<open>IndexError\<close> are
  the ones subscripting raises.
\<close>

datatype exc = Raised string | KeyError string | IndexError

text \<open>\<^verbatim>\<open>str(e)\<close>. The text of a \<^verbatim>\<open>KeyError\<close> is the \<^verbatim>\<open>repr\<close> of the key; the keys of this program
  are plain identifiers, whose \<^verbatim>\<open>repr\<close> is the key between single quotes.\<close>

fun str_exc :: "exc \<Rightarrow> string" where
  "str_exc (Raised m) = m"
| "str_exc (KeyError k) = [CHR 0x27] @ k @ [CHR 0x27]"
| "str_exc IndexError = ''list index out of range''"

datatype pyval = PNone | PInt int | PStr string

text \<open>\<^verbatim>\<open>d[k]\<close> on a dictionary and \<^verbatim>\<open>xs[0]\<close> on a list.\<close>

definition dict_get :: "(string \<rightharpoonup> 'v) \<Rightarrow> string \<Rightarrow> exc + 'v" where
  "dict_get d k = (case d k of None \<Rightarrow> Inl (KeyError k) | Some v \<Rightarrow> Inr v)"

definition first :: "'a list \<Rightarrow> exc + 'a" where
  "first xs = (case xs of [] \<Rightarrow> Inl IndexError | x # _ \<Rightarrow> Inr x)"

text \<open>The submitted form is a multi-dictionary: \<open>form k\<close> is \<^verbatim>\<open>form.getlist(k)\<close>, the empty list
  for an absent key; \<^verbatim>\<open>form.get(k)\<close> is the first value or \<^verbatim>\<open>None\<close>, \<^verbatim>\<open>form.get(k, d)\<close> the
  first value or \<open>d\<close>.\<close>

type_synonym form = "string \<Rightarrow> string list"

definition form_get :: "form \<Rightarrow> string \<Rightarrow> string option" where
  "form_get f k = (case f k of [] \<Rightarrow> None | v # _ \<Rightarrow> Some v)"

definition form_get_default :: "form \<Rightarrow> string \<Rightarrow> string \<Rightarrow> string" where
  "form_get_default f k d = (case f k of [] \<Rightarrow> d | v # _ \<Rightarrow> v)"

section \<open>The data the handler builds\<close>

text \<open>The interface dictionary of lines 155--166. Its \<^verbatim>\<open>details\<close> entry is the only
  dictionary whose keys vary, so it stays a map; the fixed-key dictionaries are records.\<close>

record interface =
  if_type :: int
  if_main :: int
  if_useip :: int
  if_ip :: string
  if_dns :: string
  if_port :: string
  details :: "string \<rightharpoonup> pyval"

text \<open>\<^verbatim>\<open>create_params\<close> of lines 181--188. \<open>cp_groups\<close> lists the \<^verbatim>\<open>groupid\<close> value of each
  one-key dictionary of \<^verbatim>\<open>groups\<close> (\<open>None\<close> is Python's \<^verbatim>\<open>None\<close>), \<open>cp_templates\<close> the
  \<^verbatim>\<open>templateid\<close> value of each dictionary of \<^verbatim>\<open>templates\<close>.\<close>

record create_params =
  cp_host :: string
  cp_name :: string
  cp_interfaces :: "interface list"
  cp_groups :: "string option list"
  cp_templates :: "string list"
  cp_status :: int

text \<open>The per-row result dictionary.\<close>

record outcome =
  nome :: string
  ip :: string
  status :: string
  mensagem :: string

section \<open>The remote API and the program state\<close>

text \<open>
  The client object: the URL it was built with and the token \<^verbatim>\<open>login\<close> stored in it
  (\<open>None\<close> until a login has succeeded).
\<close>

record session =
  url :: string
  auth :: "string option"

text \<open>The remote calls the program makes, with their arguments, as they are logged.\<close>

datatype call =
    UserLogin string string
  | ApiVersion
  | HostGet string
  | HostCreate create_params
  | HostgroupGet "string option"
  | HostgroupCreate string

text \<open>
  The remote end is a parameter: for each method a function from the server's state
  \<open>'w\<close> to the answer (an exception raised by the client, or the decoded result) and the
  server's next state. Results have the shape the Zabbix API documents: \<^verbatim>\<open>host.get\<close> and
  \<^verbatim>\<open>hostgroup.get\<close> return a list of objects, \<^verbatim>\<open>host.create\<close> and \<^verbatim>\<open>hostgroup.create\<close> an
  object whose \<^verbatim>\<open>hostids\<close> or \<^verbatim>\<open>groupids\<close> entry is a list of identifiers.
  \<open>hostgroup_get z (Some n)\<close> is the call with \<^verbatim>\<open>filter={'name': n}\<close>, \<open>hostgroup_get z None\<close>
  the call without arguments.
\<close>

record 'w zabbix_server =
  user_login :: "session \<Rightarrow> string \<Rightarrow> string \<Rightarrow> 'w \<Rightarrow> (exc + string) \<times> 'w"
  apiinfo_version :: "session \<Rightarrow> 'w \<Rightarrow> (exc + string) \<times> 'w"
  host_get :: "session \<Rightarrow> string \<Rightarrow> 'w \<Rightarrow> (exc + (string \<rightharpoonup> string) list) \<times> 'w"
  host_create :: "session \<Rightarrow> create_params \<Rightarrow> 'w \<Rightarrow> (exc + (string \<rightharpoonup> string list)) \<times> 'w"
  hostgroup_get ::
    "session \<Rightarrow> string option \<Rightarrow> 'w \<Rightarrow> (exc + (string \<rightharpoonup> string) list) \<times> 'w"
  hostgroup_create :: "session \<Rightarrow> string \<Rightarrow> 'w \<Rightarrow> (exc + (string \<rightharpoonup> string list)) \<times> 'w"

text \<open>The state of the process: the global \<^verbatim>\<open>zabbix\<close>, the server, and the log of the remote
  calls made so far, oldest first.\<close>

record 'w state =
  zabbix :: "session option"
  world :: 'w
  calls :: "call list"

definition remote_call :: "call \<Rightarrow> ('w \<Rightarrow> 'a \<times> 'w) \<Rightarrow> 'w state \<Rightarrow> 'a \<times> 'w state" where
  "remote_call c f s =
     (case f (world s) of (r, w') \<Rightarrow> (r, s\<lparr>world := w', calls := calls s @ [c]\<rparr>))"

section \<open>Connection manager (lines 14--36)\<close>

definition ZABBIX_URL :: string where
  "ZABBIX_URL = ''http://10.3.5.34/zabbix/api_jsonrpc.php''"

definition ZABBIX_USER :: string where
  "ZABBIX_USER = ''Admin''"

definition ZABBIX_PASSWORD :: string where
  "ZABBIX_PASSWORD = ''zabbix''"

text \<open>
  \<^verbatim>\<open>zabbix = ZabbixAPI(ZABBIX_URL)\<close> assigns the global before \<^verbatim>\<open>login\<close> runs; \<^verbatim>\<open>login\<close> stores
  the token in that object when it succeeds. Any exception of \<^verbatim>\<open>login\<close> or \<^verbatim>\<open>api_version\<close>
  is caught and the call returns \<^verbatim>\<open>None\<close>; the assignment to the global is not undone.
\<close>

definition get_zabbix_connection ::
  "'w zabbix_server \<Rightarrow> 'w state \<Rightarrow> session option \<times> 'w state" where
  "get_zabbix_connection srv s =
     (case zabbix s of
        Some z \<Rightarrow> (Some z, s)
      | None \<Rightarrow>
          (let z0 = \<lparr>url = ZABBIX_URL, auth = None\<rparr>;
               s0 = s\<lparr>zabbix := Some z0\<rparr>
           in case remote_call (UserLogin ZABBIX_USER ZABBIX_PASSWORD)
                     (user_login srv z0 ZABBIX_USER ZABBIX_PASSWORD) s0 of
                (Inl e, s1) \<Rightarrow> (None, s1)
              | (Inr token, s1) \<Rightarrow>
                  (let z1 = z0\<lparr>auth := Some token\<rparr>;
                       s2 = s1\<lparr>zabbix := Some z1\<rparr>
                   in case remote_call ApiVersion (apiinfo_version srv z1) s2 of
                        (Inl e, s3) \<Rightarrow> (None, s3)
                      | (Inr v, s3) \<Rightarrow> (Some z1, s3))))"

section \<open>Group resolver (lines 207--220)\<close>

definition IMPORTED_HOSTS :: string where
  "IMPORTED_HOSTS = ''Imported Hosts''"

text \<open>The body of the \<^verbatim>\<open>try\<close>: look the group up, return the first match's \<^verbatim>\<open>groupid\<close>, else
  create the group and return the first of \<^verbatim>\<open>groupids\<close>.\<close>

definition hostgroup_lookup_or_create ::
  "'w zabbix_server \<Rightarrow> session \<Rightarrow> 'w state \<Rightarrow> (exc + string option) \<times> 'w state" where
  "hostgroup_lookup_or_create srv zapi s =
     (case remote_call (HostgroupGet (Some IMPORTED_HOSTS))
             (hostgroup_get srv zapi (Some IMPORTED_HOSTS)) s of
        (Inl e, s1) \<Rightarrow> (Inl e, s1)
      | (Inr groups, s1) \<Rightarrow>
          (case groups of
             g # _ \<Rightarrow> (map_sum id Some (dict_get g ''groupid''), s1)
           | [] \<Rightarrow>
               (case remote_call (HostgroupCreate IMPORTED_HOSTS)
                       (hostgroup_create srv zapi IMPORTED_HOSTS) s1 of
                  (Inl e, s2) \<Rightarrow> (Inl e, s2)
                | (Inr result, s2) \<Rightarrow>
                    (case dict_get result ''groupids'' of
                       Inl e \<Rightarrow> (Inl e, s2)
                     | Inr ids \<Rightarrow> (map_sum id Some (first ids), s2)))))"

text \<open>The bare \<^verbatim>\<open>except:\<close> catches whatever the body raised and asks for all groups; what that
  second query raises is not caught here. With no group at all the function returns
  \<^verbatim>\<open>None\<close>.\<close>

definition get_default_hostgroup ::
  "'w zabbix_server \<Rightarrow> session \<Rightarrow> 'w state \<Rightarrow> (exc + string option) \<times> 'w state" where
  "get_default_hostgroup srv zapi s =
     (case hostgroup_lookup_or_create srv zapi s of
        (Inr gid, s1) \<Rightarrow> (Inr gid, s1)
      | (Inl _, s1) \<Rightarrow>
          (case remote_call (HostgroupGet None) (hostgroup_get srv zapi None) s1 of
             (Inl e, s2) \<Rightarrow> (Inl e, s2)
           | (Inr groups, s2) \<Rightarrow>
               (case groups of
                  [] \<Rightarrow> (Inr None, s2)
                | g # _ \<Rightarrow> (map_sum id Some (dict_get g ''groupid''), s2))))"

section \<open>Per-row host creation (lines 141--205)\<close>

text \<open>
  Lines 154--179: the SNMP interface. \<open>int_of\<close> is Python's builtin \<^verbatim>\<open>int\<close> on a string,
  kept as a parameter; the default of \<^verbatim>\<open>snmp_securitylevel\<close> is the integer 0, which \<^verbatim>\<open>int\<close>
  returns as it is.
\<close>

definition snmp_interface ::
  "(string \<Rightarrow> exc + int) \<Rightarrow> string \<Rightarrow> string option \<Rightarrow> form \<Rightarrow> exc + interface" where
  "snmp_interface int_of ip' snmp_version form_data =
     (let interface =
            \<lparr>if_type = 2, if_main = 1, if_useip = 1, if_ip = ip', if_dns = '''',
             if_port = ''161'',
             details = [''version'' \<mapsto> (case snmp_version of None \<Rightarrow> PNone | Some v \<Rightarrow> PStr v),
                        ''bulk'' \<mapsto> PInt 0]\<rparr>
      in if snmp_version = Some ''2'' then
           Inr (interface\<lparr>details := (details interface)
                  (''community'' \<mapsto> PStr (form_get_default form_data ''snmp_community'' ''public''))\<rparr>)
         else if snmp_version = Some ''3'' then
           (case (case form_data ''snmp_securitylevel'' of [] \<Rightarrow> Inr 0 | v # _ \<Rightarrow> int_of v) of
              Inl e \<Rightarrow> Inl e
            | Inr level \<Rightarrow>
                Inr (interface\<lparr>details := (details interface)
                  (''securityname'' \<mapsto> PStr (form_get_default form_data ''snmp_securityname'' ''''),
                   ''securitylevel'' \<mapsto> PInt level,
                   ''authprotocol'' \<mapsto> PStr (form_get_default form_data ''snmp_authprotocol'' ''0''),
                   ''authpassphrase'' \<mapsto> PStr (form_get_default form_data ''snmp_authpassphrase'' ''''),
                   ''privprotocol'' \<mapsto> PStr (form_get_default form_data ''snmp_privprotocol'' ''0''),
                   ''privpassphrase'' \<mapsto> PStr (form_get_default form_data ''snmp_privpassphrase'' ''''),
                   ''contextname'' \<mapsto> PStr (form_get_default form_data ''snmp_contextname'' ''''))\<rparr>))
         else Inr interface)"

definition error_outcome :: "string \<Rightarrow> string \<Rightarrow> string \<Rightarrow> outcome" where
  "error_outcome hostname ip' msg =
     \<lparr>nome = hostname, ip = ip', status = ''error'', mensagem = msg\<rparr>"

definition success_outcome :: "string \<Rightarrow> string \<Rightarrow> string \<Rightarrow> outcome" where
  "success_outcome hostname ip' hostid =
     \<lparr>nome = hostname, ip = ip', status = ''success'',
      mensagem = ''Host criado com sucesso (ID: '' @ hostid @ '')''\<rparr>"

definition already_exists :: "string \<Rightarrow> string" where
  "already_exists hostname = ''Host '' @ hostname @ '' j'' @ [CHR 0xC3, CHR 0xA1] @ '' existe''"

text \<open>The body of the \<^verbatim>\<open>try\<close> of \<^verbatim>\<open>create_host_in_zabbix\<close>: \<open>Inl e\<close> when it raises \<open>e\<close>.\<close>

definition create_host_body ::
  "'w zabbix_server \<Rightarrow> (string \<Rightarrow> exc + int) \<Rightarrow> session \<Rightarrow> string \<Rightarrow> string \<Rightarrow> string list \<Rightarrow>
   string option \<Rightarrow> form \<Rightarrow> 'w state \<Rightarrow> (exc + outcome) \<times> 'w state" where
  "create_host_body srv int_of zapi hostname ip' template_ids snmp_version form_data s =
     (case remote_call (HostGet hostname) (host_get srv zapi hostname) s of
        (Inl e, s1) \<Rightarrow> (Inl e, s1)
      | (Inr existing_host, s1) \<Rightarrow>
          if existing_host \<noteq> [] then
            (Inr (error_outcome hostname ip' (already_exists hostname)), s1)
          else
            (case snmp_interface int_of ip' snmp_version form_data of
               Inl e \<Rightarrow> (Inl e, s1)
             | Inr interface \<Rightarrow>
                 (case get_default_hostgroup srv zapi s1 of
                    (Inl e, s2) \<Rightarrow> (Inl e, s2)
                  | (Inr groupid, s2) \<Rightarrow>
                      (let params =
                             \<lparr>cp_host = hostname, cp_name = hostname,
                              cp_interfaces = [interface], cp_groups = [groupid],
                              cp_templates = template_ids, cp_status = 0\<rparr>
                       in case remote_call (HostCreate params) (host_create srv zapi params) s2 of
                            (Inl e, s3) \<Rightarrow> (Inl e, s3)
                          | (Inr result, s3) \<Rightarrow>
                              (case dict_get result ''hostids'' of
                                 Inl e \<Rightarrow> (Inl e, s3)
                               | Inr ids \<Rightarrow>
                                   (case first ids of
                                      Inl e \<Rightarrow> (Inl e, s3)
                                    | Inr hostid \<Rightarrow>
                                        (Inr (success_outcome hostname ip' hostid), s3)))))))"

text \<open>\<^verbatim>\<open>except Exception as e\<close>: the exception becomes the row's error result.\<close>

definition create_host_in_zabbix ::
  "'w zabbix_server \<Rightarrow> (string \<Rightarrow> exc + int) \<Rightarrow> session \<Rightarrow> string \<Rightarrow> string \<Rightarrow> string list \<Rightarrow>
   string option \<Rightarrow> form \<Rightarrow> 'w state \<Rightarrow> outcome \<times> 'w state" where
  "create_host_in_zabbix srv int_of zapi hostname ip' template_ids snmp_version form_data s =
     (case create_host_body srv int_of zapi hostname ip' template_ids snmp_version form_data s of
        (Inr result, s') \<Rightarrow> (result, s')
      | (Inl e, s') \<Rightarrow> (error_outcome hostname ip' (str_exc e), s'))"

section \<open>The import endpoint (lines 63--139)\<close>

text \<open>
  The parsed table: its column names and its rows, a row giving the cell of each column.
  What the file system and pandas do with the upload is given with it: whether
  \<^verbatim>\<open>file.save\<close> and \<^verbatim>\<open>os.remove\<close> raise, and what \<^verbatim>\<open>pd.read_csv\<close> returns.
\<close>

record dataframe =
  columns :: "string list"
  rows :: "(string \<rightharpoonup> string) list"

record upload =
  filename :: string
  save_raises :: "exc option"
  read_csv :: "exc + dataframe"
  remove_raises :: "exc option"

record request =
  files :: "string \<rightharpoonup> upload"
  form :: form

text \<open>What the endpoint answers: a redirect to the index page after flashing a message of
  category \<^verbatim>\<open>error\<close>, or the index page rendered with the results and the two counts.\<close>

datatype response =
    Redirect string
  | Render "outcome list" nat nat

definition endswith :: "string \<Rightarrow> string \<Rightarrow> bool" where
  "endswith s suf \<longleftrightarrow> length suf \<le> length s \<and> drop (length s - length suf) s = suf"

definition required_columns :: "string list" where
  "required_columns = [''nome'', ''ip'']"

text \<open>Lines 113--123: the loop over the rows. \<^verbatim>\<open>row['nome']\<close> and \<^verbatim>\<open>row['ip']\<close> are evaluated
  before the call; a \<^verbatim>\<open>KeyError\<close> there leaves the loop.\<close>

fun import_loop ::
  "'w zabbix_server \<Rightarrow> (string \<Rightarrow> exc + int) \<Rightarrow> session \<Rightarrow> string list \<Rightarrow> string option \<Rightarrow> form \<Rightarrow>
   (string \<rightharpoonup> string) list \<Rightarrow> outcome list \<Rightarrow> 'w state \<Rightarrow> (exc + outcome list) \<times> 'w state" where
  "import_loop srv int_of zapi template_ids snmp_version form_data [] results s = (Inr results, s)"
| "import_loop srv int_of zapi template_ids snmp_version form_data (row # rest) results s =
     (case dict_get row ''nome'' of
        Inl e \<Rightarrow> (Inl e, s)
      | Inr hostname \<Rightarrow>
          (case dict_get row ''ip'' of
             Inl e \<Rightarrow> (Inl e, s)
           | Inr ip' \<Rightarrow>
               (case create_host_in_zabbix srv int_of zapi hostname ip' template_ids
                       snmp_version form_data s of
                  (result, s') \<Rightarrow>
                    import_loop srv int_of zapi template_ids snmp_version form_data rest
                      (results @ [result]) s')))"

text \<open>\<^verbatim>\<open>os.remove(filepath)\<close> followed by the rest of the path.\<close>

definition after_remove ::
  "upload \<Rightarrow> response \<Rightarrow> 'w state \<Rightarrow> (exc + response) \<times> 'w state" where
  "after_remove file r s = (case remove_raises file of Some e \<Rightarrow> (Inl e, s) | None \<Rightarrow> (Inr r, s))"

definition import_hosts_body ::
  "'w zabbix_server \<Rightarrow> (string \<Rightarrow> exc + int) \<Rightarrow> request \<Rightarrow> 'w state \<Rightarrow>
   (exc + response) \<times> 'w state" where
  "import_hosts_body srv int_of req s =
     (case files req ''csv_file'' of
        None \<Rightarrow> (Inr (Redirect ''Nenhum arquivo enviado''), s)
      | Some file \<Rightarrow>
          if filename file = '''' then (Inr (Redirect ''Nenhum arquivo selecionado''), s)
          else if \<not> endswith (filename file) ''.csv'' then
            (Inr (Redirect ''Por favor, envie um arquivo CSV''), s)
          else
            (case save_raises file of
               Some e \<Rightarrow> (Inl e, s)
             | None \<Rightarrow>
                 (case read_csv file of
                    Inl e \<Rightarrow> (Inl e, s)
                  | Inr df \<Rightarrow>
                      if \<not> list_all (\<lambda>col. col \<in> set (columns df)) required_columns then
                        after_remove file (Redirect ''O CSV deve conter as colunas: nome, ip'') s
                      else
                        (let template_ids = form req ''templates[]'';
                             snmp_version = form_get (form req) ''snmp_version''
                         in if template_ids = [] then
                              after_remove file (Redirect ''Selecione pelo menos um template'') s
                            else
                              (case get_zabbix_connection srv s of
                                 (None, s1) \<Rightarrow>
                                   after_remove file (Redirect ''Erro ao conectar ao Zabbix'') s1
                               | (Some zapi, s1) \<Rightarrow>
                                   (case import_loop srv int_of zapi template_ids snmp_version
                                           (form req) (rows df) [] s1 of
                                      (Inl e, s2) \<Rightarrow> (Inl e, s2)
                                    | (Inr results, s2) \<Rightarrow>
                                        (let success_count =
                                               length (filter (\<lambda>r. status r = ''success'') results);
                                             error_count = length results - success_count
                                         in after_remove file
                                              (Render results success_count error_count) s2)))))))"

definition processing_error :: "exc \<Rightarrow> string" where
  "processing_error e =
     ''Erro ao processar importa'' @ [CHR 0xC3, CHR 0xA7, CHR 0xC3, CHR 0xA3] @ ''o: '' @ str_exc e"

definition import_hosts ::
  "'w zabbix_server \<Rightarrow> (string \<Rightarrow> exc + int) \<Rightarrow> request \<Rightarrow> 'w state \<Rightarrow> response \<times> 'w state" where
  "import_hosts srv int_of req s =
     (case import_hosts_body srv int_of req s of
        (Inr r, s') \<Rightarrow> (r, s')
      | (Inl e, s') \<Rightarrow> (Redirect (processing_error e), s'))"

section \<open>Auxiliary definitions for the statements\<close>

text \<open>A table as pandas delivers it: every row has a cell for every column.\<close>

definition complete_rows :: "dataframe \<Rightarrow> bool" where
  "complete_rows df = list_all (\<lambda>row. list_all (\<lambda>c. row c \<noteq> None) (columns df)) (rows df)"

text \<open>The sequences of remote calls one group resolution can make.\<close>

definition group_call_seqs :: "call list set" where
  "group_call_seqs =
     {[HostgroupGet (Some IMPORTED_HOSTS)],
      [HostgroupGet (Some IMPORTED_HOSTS), HostgroupCreate IMPORTED_HOSTS],
      [HostgroupGet (Some IMPORTED_HOSTS), HostgroupGet None],
      [HostgroupGet (Some IMPORTED_HOSTS), HostgroupCreate IMPORTED_HOSTS, HostgroupGet None]}"

fun is_redirect :: "response \<Rightarrow> bool" where
  "is_redirect (Redirect _) = True"
| "is_redirect (Render _ _ _) = False"

subsection \<open>Concrete inputs\<close>

text \<open>
  A small server for the examples. Its state is the list of host names it holds:
  \<^verbatim>\<open>host.get\<close> finds a host when its name is in the list and \<^verbatim>\<open>host.create\<close> adds the name.
  The connection breaks while the host \<open>unreachable\<close> is looked up, and the server refuses
  to create a host named \<open>bad host\<close>.
  The login succeeds when \<open>login_ok\<close>; \<open>named\<close> answers the group lookup by name,
  \<open>created\<close> is what \<^verbatim>\<open>hostgroup.create\<close> does and \<open>everything\<close> what the query for all
  groups does.
\<close>

definition demo_server ::
  "bool \<Rightarrow> (string \<rightharpoonup> string) list \<Rightarrow> (exc + (string \<rightharpoonup> string list)) \<Rightarrow>
   (exc + (string \<rightharpoonup> string) list) \<Rightarrow> string list zabbix_server" where
  "demo_server login_ok named created everything =
     \<lparr>user_login = (\<lambda>z u p w.
        (if login_ok then Inr ''token'' else Inl (Raised ''Login name or password is incorrect.''), w)),
      apiinfo_version = (\<lambda>z w. (Inr ''6.0.0'', w)),
      host_get = (\<lambda>z h w.
        (if h = ''unreachable'' then Inl (Raised ''Connection timed out'')
         else Inr (if h \<in> set w then [[''host'' \<mapsto> h]] else []), w)),
      host_create = (\<lambda>z p w.
        if cp_host p = ''bad host'' then (Inl (Raised ''Invalid parameter: invalid host name.''), w)
        else (Inr [''hostids'' \<mapsto> [''10084'']], w @ [cp_host p])),
      hostgroup_get = (\<lambda>z f w. (case f of Some n \<Rightarrow> Inr named | None \<Rightarrow> everything, w)),
      hostgroup_create = (\<lambda>z n w. (created, w))\<rparr>"

definition demo_group :: "string \<rightharpoonup> string" where
  "demo_group = [''groupid'' \<mapsto> ''5'', ''name'' \<mapsto> ''Imported Hosts'']"

definition other_group :: "string \<rightharpoonup> string" where
  "other_group = [''groupid'' \<mapsto> ''2'', ''name'' \<mapsto> ''Linux servers'']"

definition no_permission :: "exc + (string \<rightharpoonup> string list)" where
  "no_permission = Inl (Raised ''No permissions to call hostgroup.create.'')"

definition demo_session :: session where
  "demo_session = \<lparr>url = ZABBIX_URL, auth = Some ''token''\<rparr>"

definition demo_state :: "string list \<Rightarrow> string list state" where
  "demo_state hosts = \<lparr>zabbix = None, world = hosts, calls = []\<rparr>"

text \<open>A stand-in for Python's \<^verbatim>\<open>int\<close> in the examples. It agrees with \<^verbatim>\<open>int\<close> on the four strings
  the examples apply it to: \<open>0\<close>, \<open>1\<close> and \<open>2\<close>, and \<open>high\<close>, where \<^verbatim>\<open>int\<close> raises a
  \<^verbatim>\<open>ValueError\<close> with this text. It is not \<^verbatim>\<open>int\<close> on other strings (\<^verbatim>\<open>int\<close> accepts \<open>3\<close>, signs
  and surrounding blanks), and every general statement is about an arbitrary \<open>int_of\<close>.\<close>

definition demo_int :: "string \<Rightarrow> exc + int" where
  "demo_int v =
     (if v = ''0'' then Inr 0 else if v = ''1'' then Inr 1 else if v = ''2'' then Inr 2
      else Inl (Raised (''invalid literal for int() with base 10: '' @ [CHR 0x27] @ v @ [CHR 0x27])))"

definition demo_form :: "string \<Rightarrow> form" where
  "demo_form v k =
     (if k = ''templates[]'' then [''10001'']
      else if k = ''snmp_version'' then [v]
      else if k = ''snmp_community'' then [''public'']
      else [])"

definition demo_df :: dataframe where
  "demo_df =
     \<lparr>columns = [''nome'', ''ip''],
      rows = [[''nome'' \<mapsto> ''host-a'', ''ip'' \<mapsto> ''10.0.0.1''],
              [''nome'' \<mapsto> ''host-b'', ''ip'' \<mapsto> ''10.0.0.2'']]\<rparr>"

text \<open>The keys the version-3 branch (lines 172--178) adds to \<^verbatim>\<open>details\<close>.\<close>

definition v3_fields :: "string set" where
  "v3_fields = {''securityname'', ''securitylevel'', ''authprotocol'', ''authpassphrase'',
                ''privprotocol'', ''privpassphrase'', ''contextname''}"

text \<open>Forms, descriptors, parameters, states and uploads of the examples.\<close>

definition demo_v3_form :: form where
  "demo_v3_form k =
     (if k = ''templates[]'' then [''10001'']
      else if k = ''snmp_version'' then [''3'']
      else if k = ''snmp_securityname'' then [''monitor'']
      else if k = ''snmp_securitylevel'' then [''2'']
      else if k = ''snmp_authprotocol'' then [''1'']
      else if k = ''snmp_authpassphrase'' then [''authsecret'']
      else if k = ''snmp_privprotocol'' then [''1'']
      else if k = ''snmp_privpassphrase'' then [''privsecret'']
      else [])"


definition no_templates_form :: form where
  "no_templates_form k = (if k = ''snmp_version'' then [''2''] else [])"

definition demo_v2_interface :: interface where
  "demo_v2_interface =
     \<lparr>if_type = 2, if_main = 1, if_useip = 1, if_ip = ''10.0.0.2'', if_dns = '''',
      if_port = ''161'',
      details = [''version'' \<mapsto> PStr ''2'', ''bulk'' \<mapsto> PInt 0, ''community'' \<mapsto> PStr ''public'']\<rparr>"

definition demo_v3_interface :: interface where
  "demo_v3_interface =
     \<lparr>if_type = 2, if_main = 1, if_useip = 1, if_ip = ''10.0.0.2'', if_dns = '''',
      if_port = ''161'',
      details = [''version'' \<mapsto> PStr ''3'', ''bulk'' \<mapsto> PInt 0,
                 ''securityname'' \<mapsto> PStr ''monitor'', ''securitylevel'' \<mapsto> PInt 2,
                 ''authprotocol'' \<mapsto> PStr ''1'', ''authpassphrase'' \<mapsto> PStr ''authsecret'',
                 ''privprotocol'' \<mapsto> PStr ''1'', ''privpassphrase'' \<mapsto> PStr ''privsecret'',
                 ''contextname'' \<mapsto> PStr '''']\<rparr>"


definition demo_params :: "interface \<Rightarrow> create_params" where
  "demo_params i =
     \<lparr>cp_host = ''host-b'', cp_name = ''host-b'', cp_interfaces = [i],
      cp_groups = [Some ''5''], cp_templates = [''10001''], cp_status = 0\<rparr>"

definition demo_after_create :: "interface \<Rightarrow> string list state" where
  "demo_after_create i =
     \<lparr>zabbix = None, world = [''host-b''],
      calls = [HostGet ''host-b'', HostgroupGet (Some IMPORTED_HOSTS), HostCreate (demo_params i)]\<rparr>"

definition demo_groups_state :: "call list \<Rightarrow> string list state" where
  "demo_groups_state cs = \<lparr>zabbix = None, world = [], calls = cs\<rparr>"

definition demo_failed_login :: "string list state" where
  "demo_failed_login =
     \<lparr>zabbix = Some \<lparr>url = ZABBIX_URL, auth = None\<rparr>, world = [],
      calls = [UserLogin ZABBIX_USER ZABBIX_PASSWORD]\<rparr>"


definition english_df :: dataframe where
  "english_df =
     \<lparr>columns = [''name'', ''address''],
      rows = [[''name'' \<mapsto> ''host-a'', ''address'' \<mapsto> ''10.0.0.1'']]\<rparr>"

definition demo_upload :: "dataframe \<Rightarrow> upload" where
  "demo_upload df =
     \<lparr>filename = ''hosts.csv'', save_raises = None, read_csv = Inr df, remove_raises = None\<rparr>"

definition demo_request :: "dataframe \<Rightarrow> form \<Rightarrow> request" where
  "demo_request df f = \<lparr>files = [''csv_file'' \<mapsto> demo_upload df], form = f\<rparr>"

text \<open>A server that holds two groups, \<open>Imported Hosts\<close> being the second. Its state counts
  the lookups by name: the first one answers, the later ones raise.\<close>

definition flaky_server :: "nat zabbix_server" where
  "flaky_server =
     \<lparr>user_login = (\<lambda>z u p w. (Inr ''token'', w)),
      apiinfo_version = (\<lambda>z w. (Inr ''6.0.0'', w)),
      host_get = (\<lambda>z h w. (Inr [], w)),
      host_create = (\<lambda>z p w. (Inr [''hostids'' \<mapsto> [''10084'']], w)),
      hostgroup_get = (\<lambda>z f w.
        case f of
          Some n \<Rightarrow> (if w = 0 then Inr [demo_group] else Inl (Raised ''Connection timed out''), Suc w)
        | None \<Rightarrow> (Inr [other_group, demo_group], w)),
      hostgroup_create = (\<lambda>z n w. (no_permission, w))\<rparr>"

section \<open>The log of remote calls\<close>


lemma remote_call_log:
  assumes "remote_call c f s = (r, s')"
  shows "calls s' = calls s @ [c]" and "zabbix s' = zabbix s" and "f (world s) = (r, world s')"
  using assms by (auto simp: remote_call_def split: prod.splits)

lemma hostgroup_lookup_or_create_log:
  assumes "hostgroup_lookup_or_create srv zapi s = (r, s')"
  shows "zabbix s' = zabbix s \<and>
         (calls s' = calls s @ [HostgroupGet (Some IMPORTED_HOSTS)] \<or>
          calls s' = calls s @ [HostgroupGet (Some IMPORTED_HOSTS), HostgroupCreate IMPORTED_HOSTS])"
  using assms
  by (auto simp: hostgroup_lookup_or_create_def remote_call_def
           split: prod.splits sum.splits list.splits)

lemma get_default_hostgroup_log:
  assumes "get_default_hostgroup srv zapi s = (r, s')"
  shows "zabbix s' = zabbix s \<and> (\<exists>cs \<in> group_call_seqs. calls s' = calls s @ cs)"
proof -
  obtain r1 s1 where t: "hostgroup_lookup_or_create srv zapi s = (r1, s1)"
    by (cases "hostgroup_lookup_or_create srv zapi s")
  note l = hostgroup_lookup_or_create_log [OF t]
  show ?thesis
  proof (cases r1)
    case (Inr gid)
    with assms t have "s' = s1" by (simp add: get_default_hostgroup_def)
    with l show ?thesis by (auto simp: group_call_seqs_def)
  next
    case (Inl e)
    obtain r2 s2 where q: "remote_call (HostgroupGet None) (hostgroup_get srv zapi None) s1 = (r2, s2)"
      by (cases "remote_call (HostgroupGet None) (hostgroup_get srv zapi None) s1")
    from assms t Inl q have "s' = s2"
      by (auto simp: get_default_hostgroup_def split: sum.splits list.splits)
    with remote_call_log(1,2) [OF q] l show ?thesis
      by (auto simp: group_call_seqs_def)
  qed
qed


lemma group_call_seqs_no_host:
  "cs \<in> group_call_seqs \<Longrightarrow> HostGet h \<notin> set cs \<and> HostCreate p \<notin> set cs"
  by (auto simp: group_call_seqs_def)

section \<open>One result per row, in the order of the rows\<close>

lemma create_host_body_row:
  assumes "create_host_body srv int_of zapi h a tids v fd s = (Inr out, s')"
  shows "nome out = h \<and> ip out = a"
  using assms
  by (auto simp: create_host_body_def error_outcome_def success_outcome_def Let_def
           split: prod.splits sum.splits if_splits)

lemma create_host_in_zabbix_row:
  assumes "create_host_in_zabbix srv int_of zapi h a tids v fd s = (out, s')"
  shows "nome out = h \<and> ip out = a"
proof (cases "create_host_body srv int_of zapi h a tids v fd s")
  case (Pair r s1)
  show ?thesis
  proof (cases r)
    case (Inl e)
    with Pair assms show ?thesis
      by (auto simp: create_host_in_zabbix_def error_outcome_def)
  next
    case (Inr res)
    with Pair assms have "res = out" by (simp add: create_host_in_zabbix_def)
    with create_host_body_row Pair Inr show ?thesis by blast
  qed
qed

lemma import_loop_acc:
  assumes "list_all (\<lambda>row. row ''nome'' \<noteq> None \<and> row ''ip'' \<noteq> None) rs"
  shows "\<exists>new s'. import_loop srv int_of zapi tids v fd rs acc s = (Inr (acc @ new), s') \<and>
           length new = length rs \<and>
           map (\<lambda>r. Some (nome r)) new = map (\<lambda>row. row ''nome'') rs \<and>
           map (\<lambda>r. Some (ip r)) new = map (\<lambda>row. row ''ip'') rs"
  using assms
proof (induction rs arbitrary: acc s)
  case Nil
  then show ?case by simp
next
  case (Cons row rest)
  from Cons.prems obtain h a where ha: "row ''nome'' = Some h" "row ''ip'' = Some a"
    by auto
  obtain out s1 where run: "create_host_in_zabbix srv int_of zapi h a tids v fd s = (out, s1)"
    by (cases "create_host_in_zabbix srv int_of zapi h a tids v fd s")
  from Cons.prems have "list_all (\<lambda>row. row ''nome'' \<noteq> None \<and> row ''ip'' \<noteq> None) rest"
    by simp
  from Cons.IH [OF this, of "acc @ [out]" s1]
  obtain new s' where
    rec: "import_loop srv int_of zapi tids v fd rest (acc @ [out]) s1 = (Inr ((acc @ [out]) @ new), s')"
      "length new = length rest"
      "map (\<lambda>r. Some (nome r)) new = map (\<lambda>row. row ''nome'') rest"
      "map (\<lambda>r. Some (ip r)) new = map (\<lambda>row. row ''ip'') rest"
    by blast
  have "import_loop srv int_of zapi tids v fd (row # rest) acc s = (Inr (acc @ out # new), s')"
    using ha run rec(1) by (simp add: dict_get_def)
  moreover have "nome out = h" "ip out = a"
    using create_host_in_zabbix_row [OF run] by simp_all
  ultimately show ?case
    using rec(2-4) ha by (intro exI [of _ "out # new"] exI [of _ s']) simp
qed

lemma complete_rows_required:
  assumes "list_all (\<lambda>col. col \<in> set (columns df)) required_columns" and "complete_rows df"
  shows "list_all (\<lambda>row. row ''nome'' \<noteq> None \<and> row ''ip'' \<noteq> None) (rows df)"
  using assms by (auto simp: complete_rows_def required_columns_def list_all_iff)

text \<open>
  Claim C1. For a table that has the two required columns and a cell for every column in
  every row, the loop of lines 113--123 ends normally with a list of results as long as
  the table; the \<open>i\<close>-th result carries the name and the address of the \<open>i\<close>-th row. This
  holds whatever the server answers and whatever the form holds.
\<close>

theorem import_loop_one_outcome_per_row:
  assumes "list_all (\<lambda>col. col \<in> set (columns df)) required_columns"
      and "complete_rows df"
  shows "\<exists>results s'.
           import_loop srv int_of zapi tids v fd (rows df) [] s = (Inr results, s') \<and>
           length results = length (rows df) \<and>
           map (\<lambda>r. Some (nome r)) results = map (\<lambda>row. row ''nome'') (rows df) \<and>
           map (\<lambda>r. Some (ip r)) results = map (\<lambda>row. row ''ip'') (rows df)"
  using import_loop_acc [OF complete_rows_required [OF assms], of srv int_of zapi tids v fd "[]" s]
  by simp

theorem import_loop_one_outcome_per_row_witness:
  "list_all (\<lambda>col. col \<in> set (columns demo_df)) required_columns \<and> complete_rows demo_df \<and>
   (\<exists>results s'.
      import_loop (demo_server True [demo_group] (Inr Map.empty) (Inr [demo_group])) demo_int demo_session
        [''10001''] (Some ''2'') (demo_form ''2'') (rows demo_df) [] (demo_state [''host-a''])
        = (Inr results, s') \<and>
      length results = length (rows demo_df) \<and>
      map (\<lambda>r. Some (nome r)) results = map (\<lambda>row. row ''nome'') (rows demo_df) \<and>
      map (\<lambda>r. Some (ip r)) results = map (\<lambda>row. row ''ip'') (rows demo_df))"
proof -
  have c: "list_all (\<lambda>col. col \<in> set (columns demo_df)) required_columns"
    by (simp add: demo_df_def required_columns_def)
  have r: "complete_rows demo_df"
    by (simp add: demo_df_def complete_rows_def)
  from import_loop_one_outcome_per_row [OF c r] c r show ?thesis by blast
qed

text \<open>The scenario of the specification: \<open>host-a\<close> exists on the server, \<open>host-b\<close> does not.\<close>

lemma import_loop_scenario:
  "fst (import_loop (demo_server True [demo_group] (Inr Map.empty) (Inr [demo_group])) demo_int demo_session
        [''10001''] (Some ''2'') (demo_form ''2'') (rows demo_df) [] (demo_state [''host-a'']))
   = Inr [error_outcome ''host-a'' ''10.0.0.1'' (already_exists ''host-a''),
          success_outcome ''host-b'' ''10.0.0.2'' ''10084'']"
  by (simp add: demo_df_def dict_get_def create_host_in_zabbix_def create_host_body_def
      remote_call_def demo_server_def demo_state_def snmp_interface_def get_default_hostgroup_def
      hostgroup_lookup_or_create_def demo_group_def first_def Let_def)

text \<open>The same at the endpoint: when the upload, the columns, the templates and the
  connection are in order, the page is rendered with one result per row and the two
  counts of line 129 and 130.\<close>

lemma import_hosts_renders_every_row:
  assumes "files req ''csv_file'' = Some file"
      and "filename file \<noteq> ''''" and "endswith (filename file) ''.csv''"
      and "save_raises file = None" and "read_csv file = Inr df" and "remove_raises file = None"
      and "list_all (\<lambda>col. col \<in> set (columns df)) required_columns" and "complete_rows df"
      and "form req ''templates[]'' \<noteq> []"
      and "get_zabbix_connection srv s = (Some zapi, s1)"
  shows "\<exists>results s2.
           import_hosts srv int_of req s =
             (Render results (length (filter (\<lambda>r. status r = ''success'') results))
                (length results - length (filter (\<lambda>r. status r = ''success'') results)), s2) \<and>
           length results = length (rows df) \<and>
           map (\<lambda>r. Some (nome r)) results = map (\<lambda>row. row ''nome'') (rows df) \<and>
           map (\<lambda>r. Some (ip r)) results = map (\<lambda>row. row ''ip'') (rows df)"
proof -
  from import_loop_acc [OF complete_rows_required [OF assms(7,8)],
      of srv int_of zapi "form req ''templates[]''" "form_get (form req) ''snmp_version''"
         "form req" "[]" s1]
  obtain results s2 where
    loop: "import_loop srv int_of zapi (form req ''templates[]'') (form_get (form req) ''snmp_version'')
             (form req) (rows df) [] s1 = (Inr results, s2)"
    and props: "length results = length (rows df)"
      "map (\<lambda>r. Some (nome r)) results = map (\<lambda>row. row ''nome'') (rows df)"
      "map (\<lambda>r. Some (ip r)) results = map (\<lambda>row. row ''ip'') (rows df)"
    by auto
  have "import_hosts srv int_of req s =
          (Render results (length (filter (\<lambda>r. status r = ''success'') results))
             (length results - length (filter (\<lambda>r. status r = ''success'') results)), s2)"
    using assms loop
    by (simp add: import_hosts_def import_hosts_body_def after_remove_def Let_def)
  with props show ?thesis by blast
qed

lemma import_hosts_scenario:
  "fst (import_hosts (demo_server True [demo_group] no_permission (Inr [demo_group])) demo_int
          (demo_request demo_df (demo_form ''2'')) (demo_state [''host-a''])) =
   Render [error_outcome ''host-a'' ''10.0.0.1'' (already_exists ''host-a''),
           success_outcome ''host-b'' ''10.0.0.2'' ''10084''] 1 1"
  by (simp add: import_hosts_def import_hosts_body_def after_remove_def Let_def demo_request_def
      demo_upload_def endswith_def demo_df_def required_columns_def demo_form_def form_get_def
      get_zabbix_connection_def remote_call_def demo_server_def demo_state_def
      dict_get_def create_host_in_zabbix_def create_host_body_def snmp_interface_def
      get_default_hostgroup_def hostgroup_lookup_or_create_def demo_group_def first_def
      error_outcome_def success_outcome_def)

section \<open>A row whose host exists\<close>

text \<open>
  Claim C2. When \<^verbatim>\<open>host.get\<close> answers the row's name with a non-empty list,
  \<^verbatim>\<open>create_host_in_zabbix\<close> returns the row's error result with the message that the host
  exists, and the lookup is the only remote call it has made: the log grows by that one
  call and the server is left in the state the lookup left it in.
\<close>

theorem duplicate_row_is_error_without_create:
  assumes "host_get srv zapi hostname (world s) = (Inr existing_host, w')"
      and "existing_host \<noteq> []"
  shows "create_host_in_zabbix srv int_of zapi hostname a tids v fd s =
           (\<lparr>nome = hostname, ip = a, status = ''error'', mensagem = already_exists hostname\<rparr>,
            s\<lparr>world := w', calls := calls s @ [HostGet hostname]\<rparr>)"
  using assms
  by (simp add: create_host_in_zabbix_def create_host_body_def remote_call_def error_outcome_def)

theorem duplicate_row_is_error_without_create_witness:
  "host_get (demo_server True [demo_group] (Inr Map.empty) (Inr [demo_group])) demo_session ''host-a''
     (world (demo_state [''host-a''])) = (Inr [[''host'' \<mapsto> ''host-a'']], [''host-a'']) \<and>
   [[''host'' \<mapsto> ''host-a'']] \<noteq> [] \<and>
   create_host_in_zabbix (demo_server True [demo_group] (Inr Map.empty) (Inr [demo_group])) demo_int
     demo_session ''host-a'' ''10.0.0.1'' [''10001''] (Some ''2'') (demo_form ''2'')
     (demo_state [''host-a'']) =
     (\<lparr>nome = ''host-a'', ip = ''10.0.0.1'', status = ''error'',
       mensagem = already_exists ''host-a''\<rparr>,
      (demo_state [''host-a''])\<lparr>world := [''host-a''],
        calls := calls (demo_state [''host-a'']) @ [HostGet ''host-a'']\<rparr>)"
proof -
  have h: "host_get (demo_server True [demo_group] (Inr Map.empty) (Inr [demo_group])) demo_session
             ''host-a'' (world (demo_state [''host-a''])) =
           (Inr [[''host'' \<mapsto> ''host-a'']], [''host-a''])"
    by (simp add: demo_server_def demo_state_def)
  have n: "[[''host'' \<mapsto> ''host-a'']] \<noteq> []" by simp
  from duplicate_row_is_error_without_create [OF h n] h n show ?thesis by blast
qed

section \<open>The remote calls of one row\<close>

text \<open>
  After the host lookup a row makes no further call, or the calls of one group resolution,
  or those followed by one \<^verbatim>\<open>host.create\<close> whose parameters carry the interface of
  \<open>snmp_interface\<close>.
\<close>

lemma create_host_body_log:
  assumes "create_host_body srv int_of zapi h a tids v fd s = (r, s')"
  shows "\<exists>cs. calls s' = calls s @ HostGet h # cs \<and>
           (cs = [] \<or> cs \<in> group_call_seqs \<or>
            (\<exists>gs i gid. gs \<in> group_call_seqs \<and> snmp_interface int_of a v fd = Inr i \<and>
               cs = gs @ [HostCreate \<lparr>cp_host = h, cp_name = h, cp_interfaces = [i],
                                      cp_groups = [gid], cp_templates = tids, cp_status = 0\<rparr>]))"
proof -
  obtain r1 s1 where q1: "remote_call (HostGet h) (host_get srv zapi h) s = (r1, s1)"
    by (cases "remote_call (HostGet h) (host_get srv zapi h) s")
  note l1 = remote_call_log(1) [OF q1]
  show ?thesis
  proof (cases "\<exists>i. r1 = Inr [] \<and> snmp_interface int_of a v fd = Inr i")
    case False
    with assms q1 have "s' = s1"
      by (auto simp: create_host_body_def split: sum.splits if_splits)
    with l1 show ?thesis by simp
  next
    case True
    then obtain i where i: "r1 = Inr []" "snmp_interface int_of a v fd = Inr i" by blast
    obtain r2 s2 where q2: "get_default_hostgroup srv zapi s1 = (r2, s2)"
      by (cases "get_default_hostgroup srv zapi s1")
    from get_default_hostgroup_log [OF q2] obtain gs where
      gs: "gs \<in> group_call_seqs" "calls s2 = calls s1 @ gs" by blast
    show ?thesis
    proof (cases r2)
      case (Inl e)
      with assms q1 i q2 have "s' = s2" by (simp add: create_host_body_def)
      with l1 gs show ?thesis by simp
    next
      case (Inr gid)
      let ?p = "\<lparr>cp_host = h, cp_name = h, cp_interfaces = [i], cp_groups = [gid],
                 cp_templates = tids, cp_status = 0\<rparr>"
      obtain r3 s3 where q3: "remote_call (HostCreate ?p) (host_create srv zapi ?p) s2 = (r3, s3)"
        by (cases "remote_call (HostCreate ?p) (host_create srv zapi ?p) s2")
      from assms q1 i q2 Inr q3 have "s' = s3"
        by (auto simp: create_host_body_def Let_def split: sum.splits)
      with remote_call_log(1) [OF q3] l1 gs have "calls s' = calls s @ HostGet h # gs @ [HostCreate ?p]"
        by simp
      with gs(1) i(2) show ?thesis by blast
    qed
  qed
qed

lemma create_host_in_zabbix_log:
  assumes "create_host_in_zabbix srv int_of zapi h a tids v fd s = (out, s')"
  shows "\<exists>cs. calls s' = calls s @ HostGet h # cs \<and>
           (cs = [] \<or> cs \<in> group_call_seqs \<or>
            (\<exists>gs i gid. gs \<in> group_call_seqs \<and> snmp_interface int_of a v fd = Inr i \<and>
               cs = gs @ [HostCreate \<lparr>cp_host = h, cp_name = h, cp_interfaces = [i],
                                      cp_groups = [gid], cp_templates = tids, cp_status = 0\<rparr>]))"
proof (cases "create_host_body srv int_of zapi h a tids v fd s")
  case (Pair r s1)
  with assms have "s' = s1"
    by (auto simp: create_host_in_zabbix_def split: sum.splits)
  with create_host_body_log [OF Pair] show ?thesis by simp
qed

lemma create_call_carries_interface:
  assumes "create_host_in_zabbix srv int_of zapi h a tids v fd s = (out, s')"
      and "calls s' = calls s @ cs" and "HostCreate p \<in> set cs"
  shows "\<exists>i. snmp_interface int_of a v fd = Inr i \<and> cp_interfaces p = [i]"
proof -
  from create_host_in_zabbix_log [OF assms(1)] assms(2) obtain cs' where
    cs: "cs = HostGet h # cs'"
    and alt: "cs' = [] \<or> cs' \<in> group_call_seqs \<or>
            (\<exists>gs i gid. gs \<in> group_call_seqs \<and> snmp_interface int_of a v fd = Inr i \<and>
               cs' = gs @ [HostCreate \<lparr>cp_host = h, cp_name = h, cp_interfaces = [i],
                                      cp_groups = [gid], cp_templates = tids, cp_status = 0\<rparr>])"
    by auto
  from assms(3) cs have mem: "HostCreate p \<in> set cs'" by simp
  from alt mem group_call_seqs_no_host show ?thesis
    by (elim disjE exE conjE) (auto dest: group_call_seqs_no_host)
qed

section \<open>The SNMP interface\<close>

lemma snmp_interface_v2:
  "snmp_interface int_of a (Some ''2'') fd = Inr i \<Longrightarrow>
     dom (details i) = {''version'', ''bulk'', ''community''} \<and>
     details i ''community'' = Some (PStr (form_get_default fd ''snmp_community'' ''public''))"
  by (auto simp: snmp_interface_def Let_def split: if_splits)

lemma snmp_interface_v3:
  "snmp_interface int_of a (Some ''3'') fd = Inr i \<Longrightarrow>
     dom (details i) = {''version'', ''bulk''} \<union> v3_fields \<and> details i ''community'' = None"
  by (auto simp: snmp_interface_def Let_def v3_fields_def split: sum.splits if_splits)

text \<open>
  Claim C3, as amended. For SNMP version \<open>2\<close> the \<^verbatim>\<open>details\<close> of the interface that
  \<^verbatim>\<open>create_host_in_zabbix\<close> builds have exactly the keys \<^verbatim>\<open>version\<close>, \<^verbatim>\<open>bulk\<close> and
  \<^verbatim>\<open>community\<close>, the community being the form's \<^verbatim>\<open>snmp_community\<close> or \<^verbatim>\<open>public\<close>. For version
  \<open>3\<close>, when an interface is built (the security level of the form is accepted by
  \<^verbatim>\<open>int\<close>), the keys are \<^verbatim>\<open>version\<close>, \<^verbatim>\<open>bulk\<close> and the seven version-3 keys, and there is no
  community. Every \<^verbatim>\<open>host.create\<close> call of the row carries that interface and no other.
\<close>

theorem snmp_interface_fields:
  assumes "v = Some ''2'' \<or> v = Some ''3''"
      and "snmp_interface int_of a v fd = Inr i"
  shows "dom (details i) =
           (if v = Some ''2'' then {''version'', ''bulk'', ''community''}
            else {''version'', ''bulk''} \<union> v3_fields) \<and>
         details i ''community'' =
           (if v = Some ''2'' then Some (PStr (form_get_default fd ''snmp_community'' ''public''))
            else None) \<and>
         card v3_fields = 7 \<and>
         (create_host_in_zabbix srv int_of zapi h a tids v fd s = (out, s') \<and>
          calls s' = calls s @ cs \<and> HostCreate p \<in> set cs \<longrightarrow> cp_interfaces p = [i])"
proof -
  have "card v3_fields = 7" by (simp add: v3_fields_def)
  moreover have "cp_interfaces p = [i]"
    if "create_host_in_zabbix srv int_of zapi h a tids v fd s = (out, s')"
      "calls s' = calls s @ cs" "HostCreate p \<in> set cs"
    using create_call_carries_interface [OF that] assms(2) by auto
  ultimately show ?thesis
    using assms snmp_interface_v2 [of int_of a fd i] snmp_interface_v3 [of int_of a fd i]
    by auto
qed

lemma demo_run_v2:
  "create_host_in_zabbix (demo_server True [demo_group] (Inr Map.empty) (Inr [demo_group])) demo_int
     demo_session ''host-b'' ''10.0.0.2'' [''10001''] (Some ''2'') (demo_form ''2'') (demo_state [])
   = (success_outcome ''host-b'' ''10.0.0.2'' ''10084'', demo_after_create demo_v2_interface)"
  by (simp add: create_host_in_zabbix_def create_host_body_def
      remote_call_def demo_server_def demo_state_def snmp_interface_def get_default_hostgroup_def
      hostgroup_lookup_or_create_def demo_group_def first_def Let_def dict_get_def
      demo_after_create_def demo_params_def demo_v2_interface_def demo_form_def form_get_default_def)

theorem snmp_interface_fields_witness:
  "snmp_interface demo_int ''10.0.0.2'' (Some ''2'') (demo_form ''2'') = Inr demo_v2_interface \<and>
   dom (details demo_v2_interface) = {''version'', ''bulk'', ''community''} \<and>
   details demo_v2_interface ''community'' = Some (PStr ''public'') \<and>
   HostCreate (demo_params demo_v2_interface) \<in> set (calls (demo_after_create demo_v2_interface)) \<and>
   cp_interfaces (demo_params demo_v2_interface) = [demo_v2_interface] \<and>
   snmp_interface demo_int ''10.0.0.2'' (Some ''3'') demo_v3_form = Inr demo_v3_interface \<and>
   dom (details demo_v3_interface) = {''version'', ''bulk''} \<union> v3_fields \<and>
   details demo_v3_interface ''community'' = None"
proof -
  have i2: "snmp_interface demo_int ''10.0.0.2'' (Some ''2'') (demo_form ''2'') = Inr demo_v2_interface"
    by (simp add: snmp_interface_def demo_form_def demo_v2_interface_def form_get_default_def Let_def)
  have i3: "snmp_interface demo_int ''10.0.0.2'' (Some ''3'') demo_v3_form = Inr demo_v3_interface"
    by (simp add: snmp_interface_def demo_int_def demo_v3_form_def demo_v3_interface_def
        form_get_default_def Let_def)
  have c: "calls (demo_after_create demo_v2_interface) =
             calls (demo_state []) @ [HostGet ''host-b'', HostgroupGet (Some IMPORTED_HOSTS),
               HostCreate (demo_params demo_v2_interface)]"
    by (simp add: demo_after_create_def demo_state_def)
  have m: "HostCreate (demo_params demo_v2_interface) \<in>
             set [HostGet ''host-b'', HostgroupGet (Some IMPORTED_HOSTS),
               HostCreate (demo_params demo_v2_interface)]"
    by simp
  have f: "form_get_default (demo_form ''2'') ''snmp_community'' ''public'' = ''public''"
    by (simp add: form_get_default_def demo_form_def)
  have v2: "Some ''2'' = Some ''2'' \<or> Some ''2'' = Some ''3''"
    and v3: "Some ''3'' = Some ''2'' \<or> Some ''3'' = Some ''3''" by simp_all
  note t2 = snmp_interface_fields [OF v2 i2,
      of "demo_server True [demo_group] (Inr Map.empty) (Inr [demo_group])" demo_session "''host-b''"
         "[''10001'']" "demo_state []" "success_outcome ''host-b'' ''10.0.0.2'' ''10084''"
         "demo_after_create demo_v2_interface"
         "[HostGet ''host-b'', HostgroupGet (Some IMPORTED_HOSTS),
           HostCreate (demo_params demo_v2_interface)]"
         "demo_params demo_v2_interface"]
  from t2 demo_run_v2 c m have a: "cp_interfaces (demo_params demo_v2_interface) = [demo_v2_interface]"
    by blast
  from t2 f have b: "dom (details demo_v2_interface) = {''version'', ''bulk'', ''community''}"
    "details demo_v2_interface ''community'' = Some (PStr ''public'')"
    by simp_all
  from snmp_interface_fields [OF v3 i3,
      of "demo_server True [demo_group] (Inr Map.empty) (Inr [demo_group])" demo_session "''host-b''"
         "[''10001'']" "demo_state []" "success_outcome ''host-b'' ''10.0.0.2'' ''10084''"
         "demo_after_create demo_v3_interface"
         "[HostGet ''host-b'', HostgroupGet (Some IMPORTED_HOSTS),
           HostCreate (demo_params demo_v3_interface)]"
         "demo_params demo_v3_interface"]
  have d: "dom (details demo_v3_interface) = {''version'', ''bulk''} \<union> v3_fields"
    "details demo_v3_interface ''community'' = None"
    by simp_all
  from a b d i2 i3 show ?thesis by (simp add: demo_after_create_def)
qed

text \<open>The version-3 branch sets seven keys beside \<^verbatim>\<open>version\<close> and \<^verbatim>\<open>bulk\<close>, not six.\<close>

theorem snmp_interface_six_fields_counterexample:
  "snmp_interface demo_int ''10.0.0.2'' (Some ''3'') demo_v3_form = Inr demo_v3_interface \<and>
   card (dom (details demo_v3_interface) - {''version'', ''bulk''}) = 7"
  by (simp add: snmp_interface_def demo_int_def demo_v3_form_def demo_v3_interface_def
      form_get_default_def Let_def)



section \<open>Group resolver\<close>

lemma group_found:
  assumes "hostgroup_get srv zapi (Some IMPORTED_HOSTS) (world s) = (Inr (g # gs), w1)"
      and "g ''groupid'' = Some gid"
  shows "get_default_hostgroup srv zapi s =
           (Inr (Some gid), s\<lparr>world := w1, calls := calls s @ [HostgroupGet (Some IMPORTED_HOSTS)]\<rparr>)"
  using assms
  by (simp add: get_default_hostgroup_def hostgroup_lookup_or_create_def remote_call_def dict_get_def)

lemma group_created:
  assumes "hostgroup_get srv zapi (Some IMPORTED_HOSTS) (world s) = (Inr [], w1)"
      and "hostgroup_create srv zapi IMPORTED_HOSTS w1 = (Inr res, w2)"
      and "res ''groupids'' = Some (gid # ids)"
  shows "get_default_hostgroup srv zapi s =
           (Inr (Some gid),
            s\<lparr>world := w2,
              calls := calls s @ [HostgroupGet (Some IMPORTED_HOSTS), HostgroupCreate IMPORTED_HOSTS]\<rparr>)"
  using assms
  by (simp add: get_default_hostgroup_def hostgroup_lookup_or_create_def remote_call_def dict_get_def
      first_def)

lemma group_creation_raises:
  assumes "hostgroup_get srv zapi (Some IMPORTED_HOSTS) (world s) = (Inr [], w1)"
      and "hostgroup_create srv zapi IMPORTED_HOSTS w1 = (Inl e, w2)"
  shows "hostgroup_lookup_or_create srv zapi s =
           (Inl e,
            s\<lparr>world := w2,
              calls := calls s @ [HostgroupGet (Some IMPORTED_HOSTS), HostgroupCreate IMPORTED_HOSTS]\<rparr>)"
  using assms
  by (simp add: hostgroup_lookup_or_create_def remote_call_def)

lemma group_fallback_first:
  assumes "hostgroup_lookup_or_create srv zapi s = (Inl e, s1)"
      and "hostgroup_get srv zapi None (world s1) = (Inr (g # gs), w3)"
      and "g ''groupid'' = Some gid"
  shows "get_default_hostgroup srv zapi s =
           (Inr (Some gid), s1\<lparr>world := w3, calls := calls s1 @ [HostgroupGet None]\<rparr>)"
  using assms
  by (simp add: get_default_hostgroup_def remote_call_def dict_get_def)

lemma group_fallback_none:
  assumes "hostgroup_lookup_or_create srv zapi s = (Inl e, s1)"
      and "hostgroup_get srv zapi None (world s1) = (Inr [], w3)"
  shows "get_default_hostgroup srv zapi s =
           (Inr None, s1\<lparr>world := w3, calls := calls s1 @ [HostgroupGet None]\<rparr>)"
  using assms
  by (simp add: get_default_hostgroup_def remote_call_def)

lemma group_fallback_raises:
  assumes "hostgroup_lookup_or_create srv zapi s = (Inl e, s1)"
      and "hostgroup_get srv zapi None (world s1) = (Inl e', w3)"
  shows "get_default_hostgroup srv zapi s =
           (Inl e', s1\<lparr>world := w3, calls := calls s1 @ [HostgroupGet None]\<rparr>)"
  using assms
  by (simp add: get_default_hostgroup_def remote_call_def)

text \<open>
  Claim C4, as amended. \<^verbatim>\<open>get_default_hostgroup\<close> looks the group \<open>Imported Hosts\<close> up and
  returns the identifier of the first match; when there is no match it creates the group
  and returns the first new identifier; when creation raises, and whenever the lookup or
  the creation fails in any way, it asks for all groups and returns the first one's
  identifier; when that answer is empty it returns \<^verbatim>\<open>None\<close> and raises nothing.
\<close>

theorem get_default_hostgroup_policy:
  "(hostgroup_get srv zapi (Some IMPORTED_HOSTS) (world s) = (Inr (g # gs), w1) \<and>
    g ''groupid'' = Some gid \<longrightarrow>
      get_default_hostgroup srv zapi s =
        (Inr (Some gid), s\<lparr>world := w1, calls := calls s @ [HostgroupGet (Some IMPORTED_HOSTS)]\<rparr>)) \<and>
   (hostgroup_get srv zapi (Some IMPORTED_HOSTS) (world s) = (Inr [], w1) \<and>
    hostgroup_create srv zapi IMPORTED_HOSTS w1 = (Inr res, w2) \<and>
    res ''groupids'' = Some (gid # ids) \<longrightarrow>
      get_default_hostgroup srv zapi s =
        (Inr (Some gid),
         s\<lparr>world := w2,
           calls := calls s @ [HostgroupGet (Some IMPORTED_HOSTS), HostgroupCreate IMPORTED_HOSTS]\<rparr>)) \<and>
   (hostgroup_get srv zapi (Some IMPORTED_HOSTS) (world s) = (Inr [], w1) \<and>
    hostgroup_create srv zapi IMPORTED_HOSTS w1 = (Inl e, w2) \<longrightarrow>
      hostgroup_lookup_or_create srv zapi s =
        (Inl e,
         s\<lparr>world := w2,
           calls := calls s @ [HostgroupGet (Some IMPORTED_HOSTS), HostgroupCreate IMPORTED_HOSTS]\<rparr>)) \<and>
   (hostgroup_lookup_or_create srv zapi s = (Inl e, s1) \<and>
    hostgroup_get srv zapi None (world s1) = (Inr (g # gs), w3) \<and> g ''groupid'' = Some gid \<longrightarrow>
      get_default_hostgroup srv zapi s =
        (Inr (Some gid), s1\<lparr>world := w3, calls := calls s1 @ [HostgroupGet None]\<rparr>)) \<and>
   (hostgroup_lookup_or_create srv zapi s = (Inl e, s1) \<and>
    hostgroup_get srv zapi None (world s1) = (Inr [], w3) \<longrightarrow>
      get_default_hostgroup srv zapi s =
        (Inr None, s1\<lparr>world := w3, calls := calls s1 @ [HostgroupGet None]\<rparr>))"
  using group_found [of srv zapi s g gs w1 gid] group_created [of srv zapi s w1 res w2 gid ids]
    group_creation_raises [of srv zapi s w1 e w2] group_fallback_first [of srv zapi s e s1 g gs w3 gid]
    group_fallback_none [of srv zapi s e s1 w3]
  by blast

theorem get_default_hostgroup_policy_witness:
  "get_default_hostgroup (demo_server True [demo_group] no_permission (Inr [demo_group])) demo_session
     (demo_groups_state []) =
     (Inr (Some ''5''), demo_groups_state [HostgroupGet (Some IMPORTED_HOSTS)]) \<and>
   get_default_hostgroup (demo_server True [] (Inr [''groupids'' \<mapsto> [''7'']]) (Inr [])) demo_session
     (demo_groups_state []) =
     (Inr (Some ''7''),
      demo_groups_state [HostgroupGet (Some IMPORTED_HOSTS), HostgroupCreate IMPORTED_HOSTS]) \<and>
   get_default_hostgroup (demo_server True [] no_permission (Inr [other_group])) demo_session
     (demo_groups_state []) =
     (Inr (Some ''2''),
      demo_groups_state [HostgroupGet (Some IMPORTED_HOSTS), HostgroupCreate IMPORTED_HOSTS,
                         HostgroupGet None]) \<and>
   get_default_hostgroup (demo_server True [] no_permission (Inr [])) demo_session
     (demo_groups_state []) =
     (Inr None,
      demo_groups_state [HostgroupGet (Some IMPORTED_HOSTS), HostgroupCreate IMPORTED_HOSTS,
                         HostgroupGet None])"
proof -
  let ?s = "demo_groups_state []"
  let ?s1 = "demo_groups_state [HostgroupGet (Some IMPORTED_HOSTS), HostgroupCreate IMPORTED_HOSTS]"
  let ?e = "Raised ''No permissions to call hostgroup.create.''"
  have found: "hostgroup_get (demo_server True [demo_group] no_permission (Inr [demo_group])) demo_session
                 (Some IMPORTED_HOSTS) (world ?s) = (Inr (demo_group # []), [])"
    "demo_group ''groupid'' = Some ''5''"
    by (simp_all add: demo_server_def demo_groups_state_def demo_group_def)
  have a: "get_default_hostgroup (demo_server True [demo_group] no_permission (Inr [demo_group]))
             demo_session ?s =
           (Inr (Some ''5''), ?s\<lparr>world := [], calls := calls ?s @ [HostgroupGet (Some IMPORTED_HOSTS)]\<rparr>)"
    using found
      get_default_hostgroup_policy [where srv = "demo_server True [demo_group] no_permission (Inr [demo_group])"
        and zapi = demo_session and s = ?s and g = demo_group and gs = "[]" and ?w1.0 = "[]"
        and gid = "''5''", THEN conjunct1]
    by blast
  have absent: "hostgroup_get (demo_server True [] (Inr [''groupids'' \<mapsto> [''7'']]) (Inr [])) demo_session
                  (Some IMPORTED_HOSTS) (world ?s) = (Inr [], [])"
    "hostgroup_create (demo_server True [] (Inr [''groupids'' \<mapsto> [''7'']]) (Inr [])) demo_session
       IMPORTED_HOSTS [] = (Inr [''groupids'' \<mapsto> [''7'']], [])"
    "[''groupids'' \<mapsto> [''7'']] ''groupids'' = Some (''7'' # [])"
    by (simp_all add: demo_server_def demo_groups_state_def)
  have b: "get_default_hostgroup (demo_server True [] (Inr [''groupids'' \<mapsto> [''7'']]) (Inr []))
             demo_session ?s =
           (Inr (Some ''7''),
            ?s\<lparr>world := [],
               calls := calls ?s @ [HostgroupGet (Some IMPORTED_HOSTS), HostgroupCreate IMPORTED_HOSTS]\<rparr>)"
    using absent
      get_default_hostgroup_policy [where srv = "demo_server True [] (Inr [''groupids'' \<mapsto> [''7'']]) (Inr [])"
        and zapi = demo_session and s = ?s and ?w1.0 = "[]" and ?w2.0 = "[]"
        and res = "[''groupids'' \<mapsto> [''7'']]" and gid = "''7''" and ids = "[]",
        THEN conjunct2, THEN conjunct1]
    by blast
  have refused: "hostgroup_get (demo_server True [] no_permission (Inr everything)) demo_session
                   (Some IMPORTED_HOSTS) (world ?s) = (Inr [], [])"
    "hostgroup_create (demo_server True [] no_permission (Inr everything)) demo_session
       IMPORTED_HOSTS [] = (Inl ?e, [])"
    "hostgroup_get (demo_server True [] no_permission (Inr everything)) demo_session None (world ?s1) =
       (Inr everything, [])" for everything
    by (simp_all add: demo_server_def demo_groups_state_def no_permission_def)
  have body: "hostgroup_lookup_or_create (demo_server True [] no_permission (Inr everything)) demo_session ?s =
           (Inl ?e,
            ?s\<lparr>world := [],
               calls := calls ?s @ [HostgroupGet (Some IMPORTED_HOSTS), HostgroupCreate IMPORTED_HOSTS]\<rparr>)"
    for everything
    using refused [of everything]
      get_default_hostgroup_policy [where srv = "demo_server True [] no_permission (Inr everything)"
        and zapi = demo_session and s = ?s and ?w1.0 = "[]" and ?w2.0 = "[]" and e = ?e,
        THEN conjunct2, THEN conjunct2, THEN conjunct1]
    by blast
  have s1: "?s\<lparr>world := [],
               calls := calls ?s @ [HostgroupGet (Some IMPORTED_HOSTS), HostgroupCreate IMPORTED_HOSTS]\<rparr>
            = ?s1"
    by (simp add: demo_groups_state_def)
  have c: "get_default_hostgroup (demo_server True [] no_permission (Inr [other_group])) demo_session ?s =
           (Inr (Some ''2''), ?s1\<lparr>world := [], calls := calls ?s1 @ [HostgroupGet None]\<rparr>)"
    using body [of "[other_group]", unfolded s1] refused(3) [of "[other_group]"]
      get_default_hostgroup_policy [where srv = "demo_server True [] no_permission (Inr [other_group])"
        and zapi = demo_session and s = ?s and ?s1.0 = ?s1 and e = ?e and g = other_group and gs = "[]"
        and ?w3.0 = "[]" and gid = "''2''",
        THEN conjunct2, THEN conjunct2, THEN conjunct2, THEN conjunct1]
    by (simp add: other_group_def)
  have d: "get_default_hostgroup (demo_server True [] no_permission (Inr [])) demo_session ?s =
           (Inr None, ?s1\<lparr>world := [], calls := calls ?s1 @ [HostgroupGet None]\<rparr>)"
    using body [of "[]", unfolded s1] refused(3) [of "[]"]
      get_default_hostgroup_policy [where srv = "demo_server True [] no_permission (Inr [])"
        and zapi = demo_session and s = ?s and ?s1.0 = ?s1 and e = ?e and ?w3.0 = "[]",
        THEN conjunct2, THEN conjunct2, THEN conjunct2, THEN conjunct2]
    by blast
  from a b c d show ?thesis by (simp add: demo_groups_state_def)
qed

text \<open>With no group on the server and creation refused the resolver does not fail: it
  returns \<^verbatim>\<open>None\<close> after its three calls.\<close>

theorem no_group_available_counterexample:
  "get_default_hostgroup (demo_server True [] no_permission (Inr [])) demo_session (demo_groups_state []) =
     (Inr None,
      demo_groups_state [HostgroupGet (Some IMPORTED_HOSTS), HostgroupCreate IMPORTED_HOSTS,
                         HostgroupGet None])"
  by (simp add: get_default_hostgroup_def hostgroup_lookup_or_create_def remote_call_def
      demo_server_def demo_groups_state_def no_permission_def)

text \<open>
  Claim C9, as amended. Whenever the lookup by name answers with the group, the resolver
  returns the identifier of that group and its only remote call is the lookup; so two
  resolutions in which the lookup finds the same group, in any two states of the server,
  return the same identifier and neither creates a group.
\<close>

theorem group_resolution_idempotent:
  assumes "hostgroup_get srv zapi (Some IMPORTED_HOSTS) (world s) = (Inr (g # gs), w1)"
      and "g ''groupid'' = Some gid"
      and "hostgroup_get srv zapi' (Some IMPORTED_HOSTS) (world t) = (Inr (g # gs'), w2)"
  shows "get_default_hostgroup srv zapi s =
           (Inr (Some gid), s\<lparr>world := w1, calls := calls s @ [HostgroupGet (Some IMPORTED_HOSTS)]\<rparr>) \<and>
         get_default_hostgroup srv zapi' t =
           (Inr (Some gid), t\<lparr>world := w2, calls := calls t @ [HostgroupGet (Some IMPORTED_HOSTS)]\<rparr>)"
  using group_found [OF assms(1,2)] group_found [OF assms(3,2)] by simp

theorem group_resolution_idempotent_witness:
  "hostgroup_get (demo_server True [demo_group] no_permission (Inr [other_group, demo_group])) demo_session
     (Some IMPORTED_HOSTS) (world (demo_state [])) = (Inr [demo_group], []) \<and>
   demo_group ''groupid'' = Some ''5'' \<and>
   hostgroup_get (demo_server True [demo_group] no_permission (Inr [other_group, demo_group])) demo_session
     (Some IMPORTED_HOSTS) (world (demo_state [''host-b''])) = (Inr [demo_group], [''host-b'']) \<and>
   fst (get_default_hostgroup (demo_server True [demo_group] no_permission (Inr [other_group, demo_group]))
          demo_session (demo_state [])) = Inr (Some ''5'') \<and>
   fst (get_default_hostgroup (demo_server True [demo_group] no_permission (Inr [other_group, demo_group]))
          demo_session (demo_state [''host-b''])) = Inr (Some ''5'')"
proof -
  let ?srv = "demo_server True [demo_group] no_permission (Inr [other_group, demo_group])"
  have h1: "hostgroup_get ?srv demo_session (Some IMPORTED_HOSTS) (world (demo_state [])) =
              (Inr [demo_group], [])"
    and h2: "demo_group ''groupid'' = Some ''5''"
    and h3: "hostgroup_get ?srv demo_session (Some IMPORTED_HOSTS) (world (demo_state [''host-b''])) =
              (Inr [demo_group], [''host-b''])"
    by (simp_all add: demo_server_def demo_state_def demo_group_def)
  from group_resolution_idempotent [OF h1 h2 h3] h1 h2 h3 show ?thesis by simp
qed

text \<open>A server on which the group \<open>Imported Hosts\<close> exists throughout, as the second of its
  two groups, and whose lookup by name answers the first time and raises afterwards. The
  second resolution takes the fallback of lines 217--220 and returns the identifier of
  the other group.\<close>

theorem lookup_failure_changes_group_counterexample:
  "hostgroup_get flaky_server demo_session None 0 = (Inr [other_group, demo_group], 0) \<and>
   get_default_hostgroup flaky_server demo_session \<lparr>zabbix = None, world = 0, calls = []\<rparr> =
     (Inr (Some ''5''),
      \<lparr>zabbix = None, world = 1, calls = [HostgroupGet (Some IMPORTED_HOSTS)]\<rparr>) \<and>
   get_default_hostgroup flaky_server demo_session
     \<lparr>zabbix = None, world = 1, calls = [HostgroupGet (Some IMPORTED_HOSTS)]\<rparr> =
     (Inr (Some ''2''),
      \<lparr>zabbix = None, world = 2,
       calls = [HostgroupGet (Some IMPORTED_HOSTS), HostgroupGet (Some IMPORTED_HOSTS),
                HostgroupGet None]\<rparr>)"
  by (simp add: get_default_hostgroup_def hostgroup_lookup_or_create_def remote_call_def
      flaky_server_def demo_group_def other_group_def dict_get_def)

section \<open>Connection manager\<close>

text \<open>A stored client is returned as it is; the first call logs in with the fixed
  credentials and stores the client; a login that raises leaves a client without a token
  in the global.\<close>

lemma get_zabbix_connection_reuse:
  "zabbix s = Some z \<Longrightarrow> get_zabbix_connection srv s = (Some z, s)"
  by (simp add: get_zabbix_connection_def)

lemma get_zabbix_connection_first:
  assumes "zabbix s = None"
      and "user_login srv \<lparr>url = ZABBIX_URL, auth = None\<rparr> ZABBIX_USER ZABBIX_PASSWORD (world s) =
             (Inr token, w1)"
      and "apiinfo_version srv \<lparr>url = ZABBIX_URL, auth = Some token\<rparr> w1 = (Inr ver, w2)"
  shows "get_zabbix_connection srv s =
           (Some \<lparr>url = ZABBIX_URL, auth = Some token\<rparr>,
            \<lparr>zabbix = Some \<lparr>url = ZABBIX_URL, auth = Some token\<rparr>, world = w2,
             calls = calls s @ [UserLogin ZABBIX_USER ZABBIX_PASSWORD, ApiVersion]\<rparr>)"
  using assms by (simp add: get_zabbix_connection_def remote_call_def Let_def)

lemma get_zabbix_connection_login_fails:
  assumes "zabbix s = None"
      and "user_login srv \<lparr>url = ZABBIX_URL, auth = None\<rparr> ZABBIX_USER ZABBIX_PASSWORD (world s) =
             (Inl e, w1)"
  shows "get_zabbix_connection srv s =
           (None, \<lparr>zabbix = Some \<lparr>url = ZABBIX_URL, auth = None\<rparr>, world = w1,
                   calls = calls s @ [UserLogin ZABBIX_USER ZABBIX_PASSWORD]\<rparr>)"
  using assms by (simp add: get_zabbix_connection_def remote_call_def Let_def)

text \<open>The import endpoint stops with one flashed message when the connection manager
  returns \<^verbatim>\<open>None\<close>; no row is processed.\<close>

lemma import_hosts_without_connection:
  assumes "files req ''csv_file'' = Some file"
      and "filename file \<noteq> ''''" and "endswith (filename file) ''.csv''"
      and "save_raises file = None" and "read_csv file = Inr df" and "remove_raises file = None"
      and "list_all (\<lambda>col. col \<in> set (columns df)) required_columns"
      and "form req ''templates[]'' \<noteq> []"
      and "get_zabbix_connection srv s = (None, s1)"
  shows "import_hosts srv int_of req s = (Redirect ''Erro ao conectar ao Zabbix'', s1)"
  using assms
  by (simp add: import_hosts_def import_hosts_body_def after_remove_def Let_def)

text \<open>
  Claim C5 at a server that rejects the login. The first call logs in once and returns
  \<^verbatim>\<open>None\<close>, leaving the client that was never authenticated in the global; the second
  call makes no remote call and returns that client instead of \<^verbatim>\<open>None\<close>.
\<close>

theorem failed_login_then_unauthenticated_handle:
  "get_zabbix_connection (demo_server False [] no_permission (Inr [])) (demo_state []) =
     (None, demo_failed_login) \<and>
   get_zabbix_connection (demo_server False [] no_permission (Inr [])) demo_failed_login =
     (Some \<lparr>url = ZABBIX_URL, auth = None\<rparr>, demo_failed_login)"
  by (simp add: get_zabbix_connection_def remote_call_def Let_def demo_server_def demo_state_def
      demo_failed_login_def)

section \<open>Input errors of the import endpoint\<close>

text \<open>
  Claim C6, as amended. The two required columns are named \<^verbatim>\<open>nome\<close> (the host name) and
  \<^verbatim>\<open>ip\<close> (the address). When the uploaded table lacks one of them the endpoint answers
  with a redirect and the state is the one it started from: no remote call, no login, no
  row processed. When the upload itself went through, the flashed message is the one
  about the columns.
\<close>

theorem missing_column_rejected:
  assumes "files req ''csv_file'' = Some file"
      and "read_csv file = Inr df"
      and "''nome'' \<notin> set (columns df) \<or> ''ip'' \<notin> set (columns df)"
  shows "is_redirect (fst (import_hosts srv int_of req s)) \<and>
         snd (import_hosts srv int_of req s) = s \<and>
         (filename file \<noteq> '''' \<and> endswith (filename file) ''.csv'' \<and> save_raises file = None \<and>
          remove_raises file = None \<longrightarrow>
            fst (import_hosts srv int_of req s) = Redirect ''O CSV deve conter as colunas: nome, ip'')"
proof -
  from assms(3) have "\<not> list_all (\<lambda>col. col \<in> set (columns df)) required_columns"
    by (auto simp: required_columns_def)
  with assms(1,2) show ?thesis
    by (simp add: import_hosts_def import_hosts_body_def after_remove_def split: option.splits)
qed

theorem missing_column_rejected_witness:
  "files (demo_request english_df (demo_form ''2'')) ''csv_file'' = Some (demo_upload english_df) \<and>
   read_csv (demo_upload english_df) = Inr english_df \<and>
   ''nome'' \<notin> set (columns english_df) \<and>
   import_hosts (demo_server True [demo_group] no_permission (Inr [demo_group])) demo_int
     (demo_request english_df (demo_form ''2'')) (demo_state []) =
     (Redirect ''O CSV deve conter as colunas: nome, ip'', demo_state [])"
proof -
  have f: "files (demo_request english_df (demo_form ''2'')) ''csv_file'' = Some (demo_upload english_df)"
    by (simp add: demo_request_def)
  have r: "read_csv (demo_upload english_df) = Inr english_df"
    by (simp add: demo_upload_def)
  have m: "''nome'' \<notin> set (columns english_df) \<or> ''ip'' \<notin> set (columns english_df)"
    by (simp add: english_df_def)
  have u: "filename (demo_upload english_df) \<noteq> '''' \<and>
           endswith (filename (demo_upload english_df)) ''.csv'' \<and>
           save_raises (demo_upload english_df) = None \<and> remove_raises (demo_upload english_df) = None"
    by (simp add: demo_upload_def endswith_def)
  from missing_column_rejected [OF f r m, of "demo_server True [demo_group] no_permission (Inr [demo_group])"
      demo_int "demo_state []"] u
  have "import_hosts (demo_server True [demo_group] no_permission (Inr [demo_group])) demo_int
          (demo_request english_df (demo_form ''2'')) (demo_state []) =
        (Redirect ''O CSV deve conter as colunas: nome, ip'', demo_state [])"
    by (metis prod.collapse)
  moreover have "''nome'' \<notin> set (columns english_df)"
    by (simp add: english_df_def)
  ultimately show ?thesis using f r by blast
qed

text \<open>A table whose columns are \<^verbatim>\<open>nome\<close> and \<^verbatim>\<open>ip\<close> has neither a column \<^verbatim>\<open>name\<close> nor a column
  \<^verbatim>\<open>address\<close>, and it is imported: the endpoint logs in, processes both rows and creates
  \<open>host-b\<close>.\<close>

theorem english_column_names_counterexample:
  "''name'' \<notin> set (columns demo_df) \<and> ''address'' \<notin> set (columns demo_df) \<and>
   import_hosts (demo_server True [demo_group] no_permission (Inr [demo_group])) demo_int
     (demo_request demo_df (demo_form ''2'')) (demo_state [''host-a'']) =
     (Render [error_outcome ''host-a'' ''10.0.0.1'' (already_exists ''host-a''),
              success_outcome ''host-b'' ''10.0.0.2'' ''10084''] 1 1,
      \<lparr>zabbix = Some demo_session, world = [''host-a'', ''host-b''],
       calls = [UserLogin ZABBIX_USER ZABBIX_PASSWORD, ApiVersion, HostGet ''host-a'',
                HostGet ''host-b'', HostgroupGet (Some IMPORTED_HOSTS),
                HostCreate (demo_params demo_v2_interface)]\<rparr>)"
  by (simp add: import_hosts_def import_hosts_body_def after_remove_def Let_def demo_request_def
      demo_upload_def endswith_def demo_df_def required_columns_def demo_form_def form_get_def
      get_zabbix_connection_def remote_call_def demo_server_def demo_state_def
      dict_get_def create_host_in_zabbix_def create_host_body_def snmp_interface_def
      get_default_hostgroup_def hostgroup_lookup_or_create_def demo_group_def first_def
      error_outcome_def success_outcome_def demo_session_def demo_params_def
      demo_v2_interface_def form_get_default_def)

text \<open>
  Claim C7. When the form selects no template the endpoint answers with a redirect, never
  with rendered results, and the state is the one it started from: no remote call has
  been made.
\<close>

theorem no_templates_rejected:
  assumes "form req ''templates[]'' = []"
  shows "is_redirect (fst (import_hosts srv int_of req s)) \<and>
         snd (import_hosts srv int_of req s) = s"
  using assms
  by (simp add: import_hosts_def import_hosts_body_def after_remove_def Let_def
           split: option.splits sum.splits)

theorem no_templates_rejected_witness:
  "form (demo_request demo_df no_templates_form) ''templates[]'' = [] \<and>
   import_hosts (demo_server True [demo_group] no_permission (Inr [demo_group])) demo_int
     (demo_request demo_df no_templates_form) (demo_state []) =
     (Redirect ''Selecione pelo menos um template'', demo_state [])"
proof -
  let ?run = "import_hosts (demo_server True [demo_group] no_permission (Inr [demo_group])) demo_int
     (demo_request demo_df no_templates_form) (demo_state [])"
  have t: "form (demo_request demo_df no_templates_form) ''templates[]'' = []"
    by (simp add: demo_request_def no_templates_form_def)
  have "fst ?run = Redirect ''Selecione pelo menos um template''"
    by (simp add: import_hosts_def import_hosts_body_def after_remove_def Let_def demo_request_def
        demo_upload_def endswith_def demo_df_def required_columns_def no_templates_form_def)
  moreover from no_templates_rejected [OF t] have "snd ?run = demo_state []" by blast
  ultimately have "?run = (Redirect ''Selecione pelo menos um template'', demo_state [])"
    by (metis prod.collapse)
  with t show ?thesis by blast
qed

section \<open>Failures of one row\<close>










end
